theory Spec2Isabelle
  imports Complex_Main
begin

section \<open>Inverse operation invocation of PROJ.4 (src/pj\_inv.c)\<close>

text \<open>
  A shallow embedding of \<^verbatim>\<open>pj_inv.c\<close>: the three entry points \<^verbatim>\<open>pj_inv\<close>,
  \<^verbatim>\<open>pj_inv3d\<close>, \<^verbatim>\<open>pj_inv4d\<close> and the two static stages \<^verbatim>\<open>pj_inv_prepare\<close> and
  \<^verbatim>\<open>pj_inv_finalize\<close>.  The error number that \<^verbatim>\<open>proj_errno_set\<close> stores is the
  state; every function that receives the descriptor takes the state and returns the
  new one.
\<close>

subsection \<open>Doubles\<close>

text \<open>
  A C \<^verbatim>\<open>double\<close>.  The finite values are taken as exact reals: rounding, overflow and
  the sign of zero are not modelled.  The infinities and NaN are kept, because
  \<^verbatim>\<open>HUGE_VAL\<close> is plus infinity and the comparisons against it decide the control flow.
\<close>

datatype double = Finite real | PInf | NInf | NaN

definition HUGE_VAL :: double where
  "HUGE_VAL = PInf"

text \<open>The C operators on doubles, with the IEEE 754 rules for the special values.\<close>

fun d_neg :: "double \<Rightarrow> double" where
  "d_neg (Finite a) = Finite (- a)"
| "d_neg PInf = NInf"
| "d_neg NInf = PInf"
| "d_neg NaN = NaN"

fun d_add :: "double \<Rightarrow> double \<Rightarrow> double" where
  "d_add (Finite a) (Finite b) = Finite (a + b)"
| "d_add NaN _ = NaN"
| "d_add _ NaN = NaN"
| "d_add PInf NInf = NaN"
| "d_add NInf PInf = NaN"
| "d_add PInf _ = PInf"
| "d_add NInf _ = NInf"
| "d_add _ PInf = PInf"
| "d_add _ NInf = NInf"

definition d_sub :: "double \<Rightarrow> double \<Rightarrow> double" where
  "d_sub a b = d_add a (d_neg b)"

fun d_sgn_inf :: "real \<Rightarrow> double" where
  "d_sgn_inf a = (if a = 0 then NaN else if 0 < a then PInf else NInf)"

fun d_mul :: "double \<Rightarrow> double \<Rightarrow> double" where
  "d_mul (Finite a) (Finite b) = Finite (a * b)"
| "d_mul NaN _ = NaN"
| "d_mul _ NaN = NaN"
| "d_mul PInf PInf = PInf"
| "d_mul NInf NInf = PInf"
| "d_mul PInf NInf = NInf"
| "d_mul NInf PInf = NInf"
| "d_mul PInf (Finite b) = d_sgn_inf b"
| "d_mul (Finite a) PInf = d_sgn_inf a"
| "d_mul NInf (Finite b) = d_sgn_inf (- b)"
| "d_mul (Finite a) NInf = d_sgn_inf (- a)"

text \<open>\<^verbatim>\<open>a < b\<close>, \<^verbatim>\<open>a > b\<close> and \<^verbatim>\<open>a == b\<close>: false as soon as one side is NaN.\<close>

fun d_lt :: "double \<Rightarrow> double \<Rightarrow> bool" where
  "d_lt (Finite a) (Finite b) = (a < b)"
| "d_lt NaN _ = False"
| "d_lt _ NaN = False"
| "d_lt _ NInf = False"
| "d_lt PInf _ = False"
| "d_lt NInf _ = True"
| "d_lt _ PInf = True"

definition d_gt :: "double \<Rightarrow> double \<Rightarrow> bool" where
  "d_gt a b = d_lt b a"

definition d_eq :: "double \<Rightarrow> double \<Rightarrow> bool" where
  "d_eq a b = (a \<noteq> NaN \<and> a = b)"

subsection \<open>Coordinates\<close>

text \<open>
  \<^verbatim>\<open>PJ_COORD\<close> is a union over four doubles \<^verbatim>\<open>v[0..3]\<close>.  Its views name the same
  storage: \<^verbatim>\<open>xyz.x\<close>, \<^verbatim>\<open>lp.lam\<close>, \<^verbatim>\<open>lpz.lam\<close> are \<^verbatim>\<open>v[0]\<close>; \<^verbatim>\<open>xyz.y\<close>, \<^verbatim>\<open>lp.phi\<close>
  are \<^verbatim>\<open>v[1]\<close>; \<^verbatim>\<open>xyz.z\<close> is \<^verbatim>\<open>v[2]\<close>.
\<close>

record PJ_COORD =
  v0 :: double
  v1 :: double
  v2 :: double
  v3 :: double

type_synonym XY = "double \<times> double"
type_synonym LP = "double \<times> double"
type_synonym XYZ = "double \<times> double \<times> double"
type_synonym LPZ = "double \<times> double \<times> double"

text \<open>Reading a view (\<^verbatim>\<open>coo.xy\<close>, \<^verbatim>\<open>coo.lp\<close>, \<^verbatim>\<open>coo.xyz\<close>, \<^verbatim>\<open>coo.lpz\<close>).\<close>

definition coo_xy :: "PJ_COORD \<Rightarrow> XY" where
  "coo_xy coo = (v0 coo, v1 coo)"

definition coo_xyz :: "PJ_COORD \<Rightarrow> XYZ" where
  "coo_xyz coo = (v0 coo, v1 coo, v2 coo)"

text \<open>
  Assigning through a view (\<^verbatim>\<open>coo.lp = ...\<close>, \<^verbatim>\<open>coo.lpz = ...\<close>) overwrites the leading
  components and leaves the others as they were.
\<close>

definition set_lp :: "PJ_COORD \<Rightarrow> LP \<Rightarrow> PJ_COORD" where
  "set_lp coo lp = coo\<lparr>v0 := fst lp, v1 := snd lp\<rparr>"

definition set_lpz :: "PJ_COORD \<Rightarrow> LPZ \<Rightarrow> PJ_COORD" where
  "set_lpz coo lpz = coo\<lparr>v0 := fst lpz, v1 := fst (snd lpz), v2 := snd (snd lpz)\<rparr>"

subsection \<open>Error numbers\<close>

text \<open>
  The error numbers the file sets, and \<open>Other_errno\<close> for the codes of sub-operations.
  \<open>No_errno\<close> is the value 0.
\<close>

datatype pj_errno =
    No_errno
  | PJD_ERR_INVALID_X_OR_Y
  | PJD_ERR_LAT_OR_LON_EXCEED_LIMIT
  | EINVAL
  | Other_errno int

text \<open>
  Modelled from the spec: \<^verbatim>\<open>proj_errno_set\<close> is declared in \<^verbatim>\<open>proj_internal.h\<close> and not
  part of the file.  A stage that detects invalid input "sets an error code", which
  replaces the one recorded before.
\<close>

definition proj_errno_set :: "pj_errno \<Rightarrow> pj_errno \<Rightarrow> pj_errno" where
  "proj_errno_set err s = err"

text \<open>
  Modelled from the spec: \<^verbatim>\<open>proj_coord_error\<close> is not part of the file.  It returns the
  sentinel-marked coordinate: every component is the sentinel.
\<close>

definition proj_coord_error :: PJ_COORD where
  "proj_coord_error = \<lparr>v0 = HUGE_VAL, v1 = HUGE_VAL, v2 = HUGE_VAL, v3 = HUGE_VAL\<rparr>"

subsection \<open>The descriptor\<close>

datatype pj_io_units =
    PJ_IO_UNITS_WHATEVER
  | PJ_IO_UNITS_CLASSIC
  | PJ_IO_UNITS_PROJECTED
  | PJ_IO_UNITS_CARTESIAN
  | PJ_IO_UNITS_ANGULAR

datatype PJ_DIRECTION = PJ_FWD | PJ_INV

text \<open>
  A sub-operation (\<^verbatim>\<open>P->axisswap\<close>, \<^verbatim>\<open>P->hgridshift\<close>, ...) is a descriptor of its own, run
  through \<^verbatim>\<open>proj_trans\<close>.  It is opaque here: any function of the direction, the
  coordinate and the state.
\<close>

type_synonym PJ_sub = "PJ_DIRECTION \<Rightarrow> PJ_COORD \<Rightarrow> pj_errno \<Rightarrow> PJ_COORD \<times> pj_errno"

text \<open>
  The fields of \<^verbatim>\<open>PJ\<close> that the file reads.  A pointer that may be null is an option;
  an \<^verbatim>\<open>int\<close> used as a flag is a bool (true for non-zero).  The transform functions
  \<^verbatim>\<open>P->inv\<close>, \<^verbatim>\<open>P->inv3d\<close>, \<^verbatim>\<open>P->inv4d\<close> receive \<^verbatim>\<open>P\<close> itself as their second
  argument; here they are closed over it.  (\<open>inv2d\<close> is the field \<^verbatim>\<open>inv\<close>.)
\<close>

record PJ =
  left :: pj_io_units
  right :: pj_io_units
  helmert :: "PJ_sub option"
  axisswap :: "PJ_sub option"
  hgridshift :: "PJ_sub option"
  vgridshift :: "PJ_sub option"
  cart :: "PJ_sub option"
  cart_wgs84 :: "PJ_sub option"
  geoc :: bool
  over :: bool
  is_geocent :: bool
  from_greenwich :: double
  lam0 :: double
  to_meter :: double
  vto_meter :: double
  x0 :: double
  y0 :: double
  z0 :: double
  ra :: double
  skip_inv_prepare :: bool
  skip_inv_finalize :: bool
  inv2d :: "(XY \<Rightarrow> pj_errno \<Rightarrow> LP \<times> pj_errno) option"
  inv3d :: "(XYZ \<Rightarrow> pj_errno \<Rightarrow> LPZ \<times> pj_errno) option"
  inv4d :: "(PJ_COORD \<Rightarrow> pj_errno \<Rightarrow> PJ_COORD \<times> pj_errno) option"

text \<open>\<^verbatim>\<open>#define INPUT_UNITS P->right\<close> and \<^verbatim>\<open>#define OUTPUT_UNITS P->left\<close>.\<close>

abbreviation INPUT_UNITS :: "PJ \<Rightarrow> pj_io_units" where
  "INPUT_UNITS P \<equiv> right P"

abbreviation OUTPUT_UNITS :: "PJ \<Rightarrow> pj_io_units" where
  "OUTPUT_UNITS P \<equiv> left P"

subsection \<open>What the file takes from its headers\<close>

text \<open>
  The constants \<^verbatim>\<open>M_HALFPI\<close> and \<^verbatim>\<open>PJ_EPS_LAT\<close> and the functions \<^verbatim>\<open>adjlon\<close> and
  \<^verbatim>\<open>proj_geocentric_latitude\<close> come from \<^verbatim>\<open>projects.h\<close> and \<^verbatim>\<open>proj_internal.h\<close>, which
  are not part of the file.  They are parameters of the model.
  \<^verbatim>\<open>proj_geocentric_latitude (P, direction, coo)\<close> is a pure function of the descriptor's
  ellipsoid, taken here as already applied to \<^verbatim>\<open>P\<close>.
\<close>

record pj_env =
  M_HALFPI :: double
  PJ_EPS_LAT :: double
  adjlon :: "double \<Rightarrow> double"
  proj_geocentric_latitude :: "PJ_DIRECTION \<Rightarrow> PJ_COORD \<Rightarrow> PJ_COORD"

text \<open>
  Modelled from the spec: \<^verbatim>\<open>proj_trans\<close> is not part of the file.  It is the spec's
  \<open>apply (sub_operation, direction, coordinate)\<close>, the generic contract for running a
  sub-operation.  For an absent sub-operation the coordinate is left as it is (the
  file calls it unguarded only for \<^verbatim>\<open>P->cart\<close> and \<^verbatim>\<open>P->cart_wgs84\<close>).
\<close>

definition proj_trans ::
  "PJ_sub option \<Rightarrow> PJ_DIRECTION \<Rightarrow> PJ_COORD \<Rightarrow> pj_errno \<Rightarrow> PJ_COORD \<times> pj_errno" where
  "proj_trans Q direction coo s =
     (case Q of None \<Rightarrow> (coo, s) | Some q \<Rightarrow> q direction coo s)"

subsection \<open>Prepare\<close>

text \<open>
  Lines 44-46: \<^verbatim>\<open>if (HUGE_VAL==coo.v[2] && P->helmert) coo.v[2] = 0.0;\<close> and the same for
  \<^verbatim>\<open>coo.v[3]\<close>.
\<close>

definition helmert_fill :: "PJ \<Rightarrow> PJ_COORD \<Rightarrow> PJ_COORD" where
  "helmert_fill P coo =
     (let coo1 = (if d_eq HUGE_VAL (v2 coo) \<and> helmert P \<noteq> None
                  then coo\<lparr>v2 := Finite 0\<rparr> else coo)
      in (if d_eq HUGE_VAL (v3 coo1) \<and> helmert P \<noteq> None
          then coo1\<lparr>v3 := Finite 0\<rparr> else coo1))"

text \<open>
  Lines 79-85 and, word for word, lines 155-161: the horizontal grid shift, or else
  the Helmert chain.
\<close>

definition horizontal_shift :: "PJ \<Rightarrow> PJ_COORD \<Rightarrow> pj_errno \<Rightarrow> PJ_COORD \<times> pj_errno" where
  "horizontal_shift P coo s =
     (if hgridshift P \<noteq> None then proj_trans (hgridshift P) PJ_FWD coo s
      else if helmert P \<noteq> None then
        (let (coo1, s1) = proj_trans (cart P) PJ_FWD coo s;
             (coo2, s2) = proj_trans (helmert P) PJ_FWD coo1 s1
         in proj_trans (cart_wgs84 P) PJ_INV coo2 s2)
      else (coo, s))"

text \<open>Lines 55-57: the test for latitude or longitude over-range.\<close>

definition lat_or_lon_exceeds :: "pj_env \<Rightarrow> PJ_COORD \<Rightarrow> bool" where
  "lat_or_lon_exceeds E coo =
     (let t = d_sub (if d_lt (v1 coo) (Finite 0) then d_neg (v1 coo) else v1 coo) (M_HALFPI E)
      in d_gt t (PJ_EPS_LAT E) \<or> d_gt (v0 coo) (Finite 10) \<or> d_lt (v0 coo) (Finite (- 10)))"

text \<open>Lines 62-66: clamp the latitude to the -90..90 degree range.\<close>

definition clamp_lat :: "pj_env \<Rightarrow> PJ_COORD \<Rightarrow> PJ_COORD" where
  "clamp_lat E coo =
     (let coo1 = (if d_gt (v1 coo) (M_HALFPI E) then coo\<lparr>v1 := M_HALFPI E\<rparr> else coo)
      in (if d_lt (v1 coo1) (d_neg (M_HALFPI E)) then coo1\<lparr>v1 := d_neg (M_HALFPI E)\<rparr>
          else coo1))"

text \<open>
  Lines 72-77: distance from the central meridian, then the longitude brought into the
  -pi:pi range unless \<^verbatim>\<open>P->over\<close>.
\<close>

definition to_central_meridian :: "pj_env \<Rightarrow> PJ \<Rightarrow> PJ_COORD \<Rightarrow> PJ_COORD" where
  "to_central_meridian E P coo =
     (let coo1 = coo\<lparr>v0 := d_sub (d_add (v0 coo) (from_greenwich P)) (lam0 P)\<rparr>
      in (if \<not> over P then coo1\<lparr>v0 := adjlon E (v0 coo1)\<rparr> else coo1))"

text \<open>
  Lines 79-90: the datum shifts that end the block for angular input units.  The
  horizontal shift comes first; a sentinel longitude returns at once, before the
  vertical grid shift.
\<close>

definition pj_inv_prepare_shifts ::
  "PJ \<Rightarrow> PJ_COORD \<Rightarrow> pj_errno \<Rightarrow> PJ_COORD \<times> pj_errno" where
  "pj_inv_prepare_shifts P coo s =
     (let (coo1, s1) = horizontal_shift P coo s
      in if d_eq (v0 coo1) HUGE_VAL then (coo1, s1)
         else if vgridshift P \<noteq> None then proj_trans (vgridshift P) PJ_INV coo1 s1
         else (coo1, s1))"

text \<open>Lines 51-91: the block for angular input units.\<close>

definition pj_inv_prepare_angular ::
  "pj_env \<Rightarrow> PJ \<Rightarrow> PJ_COORD \<Rightarrow> pj_errno \<Rightarrow> PJ_COORD \<times> pj_errno" where
  "pj_inv_prepare_angular E P coo s =
     (if lat_or_lon_exceeds E coo
      then (proj_coord_error, proj_errno_set PJD_ERR_LAT_OR_LON_EXCEED_LIMIT s)
      else
        (let coo1 = clamp_lat E coo;
             coo2 = (if geoc P then proj_geocentric_latitude E PJ_INV coo1 else coo1);
             coo3 = to_central_meridian E P coo2
         in pj_inv_prepare_shifts P coo3 s))"

text \<open>
  Lines 93-130: the switch over the remaining input units.  The \<^verbatim>\<open>default\<close> branch and
  the return after the switch are reached for angular units only, which never arrive
  here.
\<close>

definition pj_inv_prepare_linear ::
  "PJ \<Rightarrow> PJ_COORD \<Rightarrow> pj_errno \<Rightarrow> PJ_COORD \<times> pj_errno" where
  "pj_inv_prepare_linear P coo s =
     (case INPUT_UNITS P of
        PJ_IO_UNITS_WHATEVER \<Rightarrow> (coo, s)
      | PJ_IO_UNITS_CARTESIAN \<Rightarrow>
          (let coo1 = coo\<lparr>v0 := d_sub (d_mul (to_meter P) (v0 coo)) (x0 P)\<rparr>;
               coo2 = coo1\<lparr>v1 := d_sub (d_mul (to_meter P) (v1 coo1)) (y0 P)\<rparr>;
               coo3 = coo2\<lparr>v2 := d_sub (d_mul (to_meter P) (v2 coo2)) (z0 P)\<rparr>
           in if is_geocent P then proj_trans (cart P) PJ_INV coo3 s else (coo3, s))
      | PJ_IO_UNITS_ANGULAR \<Rightarrow> (coo, s)
      | _ \<Rightarrow>
          (let coo1 = coo\<lparr>v0 := d_sub (d_mul (to_meter P) (v0 coo)) (x0 P)\<rparr>;
               coo2 = coo1\<lparr>v1 := d_sub (d_mul (to_meter P) (v1 coo1)) (y0 P)\<rparr>;
               coo3 = coo2\<lparr>v2 := d_sub (d_mul (vto_meter P) (v2 coo2)) (z0 P)\<rparr>
           in if INPUT_UNITS P = PJ_IO_UNITS_PROJECTED then (coo3, s)
              else
                (let coo4 = coo3\<lparr>v0 := d_mul (v0 coo3) (ra P)\<rparr>;
                     coo5 = coo4\<lparr>v1 := d_mul (v1 coo4) (ra P)\<rparr>
                 in (coo5, s))))"

text \<open>\<^verbatim>\<open>static PJ_COORD pj_inv_prepare (PJ *P, PJ_COORD coo)\<close>, lines 38-131.\<close>

definition pj_inv_prepare ::
  "pj_env \<Rightarrow> PJ \<Rightarrow> PJ_COORD \<Rightarrow> pj_errno \<Rightarrow> PJ_COORD \<times> pj_errno" where
  "pj_inv_prepare E P coo s =
     (if d_eq (v0 coo) HUGE_VAL
      then (proj_coord_error, proj_errno_set PJD_ERR_INVALID_X_OR_Y s)
      else
        (let coo1 = helmert_fill P coo;
             (coo2, s2) = (if axisswap P \<noteq> None then proj_trans (axisswap P) PJ_INV coo1 s
                           else (coo1, s))
         in if INPUT_UNITS P = PJ_IO_UNITS_ANGULAR then pj_inv_prepare_angular E P coo2 s2
            else pj_inv_prepare_linear P coo2 s2))"

subsection \<open>Finalize\<close>

text \<open>
  Lines 144-149: back from the distance to the central meridian, then the longitude
  brought into the -pi:pi range unless \<^verbatim>\<open>P->over\<close>.
\<close>

definition from_central_meridian :: "pj_env \<Rightarrow> PJ \<Rightarrow> PJ_COORD \<Rightarrow> PJ_COORD" where
  "from_central_meridian E P coo =
     (let coo1 = coo\<lparr>v0 := d_add (d_add (v0 coo) (from_greenwich P)) (lam0 P)\<rparr>
      in (if \<not> over P then coo1\<lparr>v0 := adjlon E (v0 coo1)\<rparr> else coo1))"

text \<open>\<^verbatim>\<open>static PJ_COORD pj_inv_finalize (PJ *P, PJ_COORD coo)\<close>, lines 135-172.\<close>

definition pj_inv_finalize ::
  "pj_env \<Rightarrow> PJ \<Rightarrow> PJ_COORD \<Rightarrow> pj_errno \<Rightarrow> PJ_COORD \<times> pj_errno" where
  "pj_inv_finalize E P coo s =
     (if d_eq (v0 coo) HUGE_VAL
      then (proj_coord_error, proj_errno_set PJD_ERR_INVALID_X_OR_Y s)
      else if OUTPUT_UNITS P = PJ_IO_UNITS_ANGULAR then
        (if INPUT_UNITS P \<noteq> PJ_IO_UNITS_ANGULAR then
           (let coo1 = from_central_meridian E P coo;
                (coo2, s2) = (if vgridshift P \<noteq> None
                              then proj_trans (vgridshift P) PJ_INV coo1 s else (coo1, s))
            in if d_eq (v0 coo2) HUGE_VAL then (coo2, s2)
               else
                 (let (coo3, s3) = horizontal_shift P coo2 s2
                  in if d_eq (v0 coo3) HUGE_VAL then (coo3, s3)
                     else if geoc P then (proj_geocentric_latitude E PJ_FWD coo3, s3)
                     else (coo3, s3)))
         else if geoc P then (proj_geocentric_latitude E PJ_FWD coo, s)
         else (coo, s))
      else (coo, s))"

subsection \<open>The entry points\<close>

text \<open>\<^verbatim>\<open>LP pj_inv (XY xy, PJ *P)\<close>, lines 176-202.\<close>

definition pj_inv :: "pj_env \<Rightarrow> XY \<Rightarrow> PJ \<Rightarrow> pj_errno \<Rightarrow> LP \<times> pj_errno" where
  "pj_inv E xy P s =
     (let coo = \<lparr>v0 = fst xy, v1 = snd xy, v2 = Finite 0, v3 = Finite 0\<rparr>;
          (coo1, s1) = (if \<not> skip_inv_prepare P then pj_inv_prepare E P coo s else (coo, s))
      in if d_eq HUGE_VAL (v0 coo1) then (coo_xy proj_coord_error, s1)
         else
           (case
              (case inv2d P of
                 Some f \<Rightarrow> (let (lp, s2) = f (coo_xy coo1) s1 in Some (set_lp coo1 lp, s2))
               | None \<Rightarrow>
              (case inv3d P of
                 Some f \<Rightarrow> (let (lpz, s2) = f (coo_xyz coo1) s1 in Some (set_lpz coo1 lpz, s2))
               | None \<Rightarrow>
              (case inv4d P of
                 Some f \<Rightarrow> Some (f coo1 s1)
               | None \<Rightarrow> None)))
            of
              None \<Rightarrow> (coo_xy proj_coord_error, proj_errno_set EINVAL s1)
            | Some (coo2, s2) \<Rightarrow>
                if d_eq HUGE_VAL (v0 coo2) then (coo_xy proj_coord_error, s2)
                else
                  (let (coo3, s3) = (if \<not> skip_inv_finalize P then pj_inv_finalize E P coo2 s2
                                     else (coo2, s2))
                   in (coo_xy coo3, s3))))"

text \<open>\<^verbatim>\<open>LPZ pj_inv3d (XYZ xyz, PJ *P)\<close>, lines 206-232.\<close>

definition pj_inv3d :: "pj_env \<Rightarrow> XYZ \<Rightarrow> PJ \<Rightarrow> pj_errno \<Rightarrow> LPZ \<times> pj_errno" where
  "pj_inv3d E xyz P s =
     (let coo = \<lparr>v0 = fst xyz, v1 = fst (snd xyz), v2 = snd (snd xyz), v3 = Finite 0\<rparr>;
          (coo1, s1) = (if \<not> skip_inv_prepare P then pj_inv_prepare E P coo s else (coo, s))
      in if d_eq HUGE_VAL (v0 coo1) then (coo_xyz proj_coord_error, s1)
         else
           (case
              (case inv3d P of
                 Some f \<Rightarrow> (let (lpz, s2) = f (coo_xyz coo1) s1 in Some (set_lpz coo1 lpz, s2))
               | None \<Rightarrow>
              (case inv4d P of
                 Some f \<Rightarrow> Some (f coo1 s1)
               | None \<Rightarrow>
              (case inv2d P of
                 Some f \<Rightarrow> (let (lp, s2) = f (coo_xy coo1) s1 in Some (set_lp coo1 lp, s2))
               | None \<Rightarrow> None)))
            of
              None \<Rightarrow> (coo_xyz proj_coord_error, proj_errno_set EINVAL s1)
            | Some (coo2, s2) \<Rightarrow>
                if d_eq HUGE_VAL (v0 coo2) then (coo_xyz proj_coord_error, s2)
                else
                  (let (coo3, s3) = (if \<not> skip_inv_finalize P then pj_inv_finalize E P coo2 s2
                                     else (coo2, s2))
                   in (coo_xyz coo3, s3))))"

text \<open>\<^verbatim>\<open>PJ_COORD pj_inv4d (PJ_COORD coo, PJ *P)\<close>, lines 236-259.\<close>

definition pj_inv4d :: "pj_env \<Rightarrow> PJ_COORD \<Rightarrow> PJ \<Rightarrow> pj_errno \<Rightarrow> PJ_COORD \<times> pj_errno" where
  "pj_inv4d E coo P s =
     (let (coo1, s1) = (if \<not> skip_inv_prepare P then pj_inv_prepare E P coo s else (coo, s))
      in if d_eq HUGE_VAL (v0 coo1) then (proj_coord_error, s1)
         else
           (case
              (case inv4d P of
                 Some f \<Rightarrow> Some (f coo1 s1)
               | None \<Rightarrow>
              (case inv3d P of
                 Some f \<Rightarrow> (let (lpz, s2) = f (coo_xyz coo1) s1 in Some (set_lpz coo1 lpz, s2))
               | None \<Rightarrow>
              (case inv2d P of
                 Some f \<Rightarrow> (let (lp, s2) = f (coo_xy coo1) s1 in Some (set_lp coo1 lp, s2))
               | None \<Rightarrow> None)))
            of
              None \<Rightarrow> (proj_coord_error, proj_errno_set EINVAL s1)
            | Some (coo2, s2) \<Rightarrow>
                if d_eq HUGE_VAL (v0 coo2) then (proj_coord_error, s2)
                else
                  (if \<not> skip_inv_finalize P then pj_inv_finalize E P coo2 s2
                   else (coo2, s2))))"

subsection \<open>The dispatch order, as the specification words it\<close>

text \<open>
  The three dimensionalities, and the order in which a call of each "tries" the
  implementations: a 2D call 2D, 3D, 4D; a 3D call 3D, 4D, 2D; a 4D call 4D, 3D, 2D.
\<close>

datatype dimension = Dim2 | Dim3 | Dim4

fun fallback_order :: "dimension \<Rightarrow> dimension list" where
  "fallback_order Dim2 = [Dim2, Dim3, Dim4]"
| "fallback_order Dim3 = [Dim3, Dim4, Dim2]"
| "fallback_order Dim4 = [Dim4, Dim3, Dim2]"

type_synonym transform = "PJ_COORD \<Rightarrow> pj_errno \<Rightarrow> PJ_COORD \<times> pj_errno"

text \<open>
  The descriptor's implementation at a dimensionality, if it has one, run on a full
  coordinate "converting the coordinate's view as needed": a 2D or 3D implementation
  reads and writes its leading components.
\<close>

fun implementation :: "PJ \<Rightarrow> dimension \<Rightarrow> transform option" where
  "implementation P Dim2 =
     map_option (\<lambda>f coo s. let (lp, s') = f (coo_xy coo) s in (set_lp coo lp, s')) (inv2d P)"
| "implementation P Dim3 =
     map_option (\<lambda>f coo s. let (lpz, s') = f (coo_xyz coo) s in (set_lpz coo lpz, s')) (inv3d P)"
| "implementation P Dim4 = inv4d P"

fun first_available :: "PJ \<Rightarrow> dimension list \<Rightarrow> transform option" where
  "first_available P [] = None"
| "first_available P (d # ds) =
     (case implementation P d of Some f \<Rightarrow> Some f | None \<Rightarrow> first_available P ds)"

text \<open>
  Dispatch of a call of dimensionality \<open>d\<close>: the first implementation in the order, or
  the failure \<open>NoTransformAvailable\<close> (\<^verbatim>\<open>EINVAL\<close>) with the sentinel-marked coordinate.
\<close>

definition dispatch :: "dimension \<Rightarrow> PJ \<Rightarrow> transform" where
  "dispatch d P coo s =
     (case first_available P (fallback_order d) of
        None \<Rightarrow> (proj_coord_error, proj_errno_set EINVAL s)
      | Some f \<Rightarrow> f coo s)"

text \<open>
  The orchestrator around the dispatch, the same for the three entry points: Prepare
  unless skipped, the sentinel check, the dispatch, the sentinel check, Finalize
  unless skipped.
\<close>

definition orchestrate :: "dimension \<Rightarrow> pj_env \<Rightarrow> PJ \<Rightarrow> transform" where
  "orchestrate d E P coo s =
     (let (coo1, s1) = (if skip_inv_prepare P then (coo, s) else pj_inv_prepare E P coo s)
      in if v0 coo1 = HUGE_VAL then (proj_coord_error, s1)
         else
           (let (coo2, s2) = dispatch d P coo1 s1
            in if v0 coo2 = HUGE_VAL then (proj_coord_error, s2)
               else if skip_inv_finalize P then (coo2, s2)
               else pj_inv_finalize E P coo2 s2))"

subsection \<open>The range check, as the specification words it\<close>

text \<open>The absolute value of a double.\<close>

fun d_abs :: "double \<Rightarrow> double" where
  "d_abs (Finite a) = Finite \<bar>a\<bar>"
| "d_abs PInf = PInf"
| "d_abs NInf = PInf"
| "d_abs NaN = NaN"

text \<open>
  "Reject if \<open>|abs(latitude) - 90\<degree>| > \<epsilon>\<close> or \<open>|longitude| > 10\<close> radians", word for
  word.
\<close>

definition exceeds_limit_claimed :: "pj_env \<Rightarrow> PJ_COORD \<Rightarrow> bool" where
  "exceeds_limit_claimed E coo =
     (d_gt (d_abs (d_sub (d_abs (v1 coo)) (M_HALFPI E))) (PJ_EPS_LAT E)
      \<or> d_gt (d_abs (v0 coo)) (Finite 10))"

text \<open>The same without the outer absolute value: \<open>abs(latitude) - 90\<degree> > \<epsilon>\<close>.\<close>

definition exceeds_limit_amended :: "pj_env \<Rightarrow> PJ_COORD \<Rightarrow> bool" where
  "exceeds_limit_amended E coo =
     (d_gt (d_sub (d_abs (v1 coo)) (M_HALFPI E)) (PJ_EPS_LAT E)
      \<or> d_gt (d_abs (v0 coo)) (Finite 10))"

subsection \<open>Longitude normalization, as the specification words it\<close>

text \<open>
  Modelled from the spec: \<^verbatim>\<open>adjlon\<close> is not part of the file.  It is to "normalize
  longitude into (-\<pi>, \<pi>]": the result is the value in that interval that differs from
  the longitude by a whole number of turns.  The specification speaks of finite
  inputs only; a longitude that is not finite has no such value and gives NaN.
\<close>

definition adjlon_spec :: "double \<Rightarrow> double" where
  "adjlon_spec lon =
     (case lon of
        Finite a \<Rightarrow> Finite (a - 2 * pi * of_int \<lceil>(a - pi) / (2 * pi)\<rceil>)
      | _ \<Rightarrow> NaN)"

subsection \<open>The steps of Finalize, as the specification words them\<close>

datatype finalize_step =
    Add_central_meridian
  | Normalize_longitude
  | Vertical_shift_inverse
  | Check_sentinel
  | Grid_shift_forward
  | Cartesian_local_forward
  | Helmert_forward
  | Cartesian_wgs84_inverse
  | To_geocentric_latitude

text \<open>What one step does to the coordinate and the state.  The check changes nothing.\<close>

fun run_step :: "pj_env \<Rightarrow> PJ \<Rightarrow> finalize_step \<Rightarrow> PJ_COORD \<Rightarrow> pj_errno \<Rightarrow> PJ_COORD \<times> pj_errno" where
  "run_step E P Add_central_meridian coo s =
     (coo\<lparr>v0 := d_add (d_add (v0 coo) (from_greenwich P)) (lam0 P)\<rparr>, s)"
| "run_step E P Normalize_longitude coo s = (coo\<lparr>v0 := adjlon E (v0 coo)\<rparr>, s)"
| "run_step E P Vertical_shift_inverse coo s = proj_trans (vgridshift P) PJ_INV coo s"
| "run_step E P Check_sentinel coo s = (coo, s)"
| "run_step E P Grid_shift_forward coo s = proj_trans (hgridshift P) PJ_FWD coo s"
| "run_step E P Cartesian_local_forward coo s = proj_trans (cart P) PJ_FWD coo s"
| "run_step E P Helmert_forward coo s = proj_trans (helmert P) PJ_FWD coo s"
| "run_step E P Cartesian_wgs84_inverse coo s = proj_trans (cart_wgs84 P) PJ_INV coo s"
| "run_step E P To_geocentric_latitude coo s = (proj_geocentric_latitude E PJ_FWD coo, s)"

text \<open>
  Running the steps in their order.  At a check, a sentinel longitude ends the run
  with the coordinate as it is.
\<close>

fun run_steps ::
  "pj_env \<Rightarrow> PJ \<Rightarrow> finalize_step list \<Rightarrow> PJ_COORD \<Rightarrow> pj_errno \<Rightarrow> PJ_COORD \<times> pj_errno" where
  "run_steps E P [] coo s = (coo, s)"
| "run_steps E P (Check_sentinel # steps) coo s =
     (if v0 coo = HUGE_VAL then (coo, s) else run_steps E P steps coo s)"
| "run_steps E P (step # steps) coo s =
     (let (coo1, s1) = run_step E P step coo s in run_steps E P steps coo1 s1)"

text \<open>
  The steps of Finalize for angular output units and other input units, in the order
  the specification gives them.
\<close>

definition finalize_steps :: "PJ \<Rightarrow> finalize_step list" where
  "finalize_steps P =
     [Add_central_meridian]
     @ (if over P then [] else [Normalize_longitude])
     @ (if vgridshift P \<noteq> None then [Vertical_shift_inverse] else [])
     @ [Check_sentinel]
     @ (if hgridshift P \<noteq> None then [Grid_shift_forward]
        else if helmert P \<noteq> None
        then [Cartesian_local_forward, Helmert_forward, Cartesian_wgs84_inverse]
        else [])
     @ [Check_sentinel]
     @ (if geoc P then [To_geocentric_latitude] else [])"

subsection \<open>Example inputs\<close>

text \<open>
  An environment with the constants at the values of 90 degrees and of a tolerance of
  \<open>10\<^sup>-\<^sup>1\<^sup>2\<close> radians, the normalization of the specification, and the geocentric
  latitude of a sphere (which is the geographic one).
\<close>

definition env_example :: pj_env where
  "env_example =
     \<lparr>M_HALFPI = Finite (15707963267948966 / 10 ^ 16),
      PJ_EPS_LAT = Finite (1 / 10 ^ 12),
      adjlon = adjlon_spec,
      proj_geocentric_latitude = (\<lambda>direction coo. coo)\<rparr>"

text \<open>
  A descriptor with passthrough units on both sides, no sub-operation, no transform
  function, unit scales and zero offsets.  The examples below update it.
\<close>

definition PJ_example :: PJ where
  "PJ_example =
     \<lparr>left = PJ_IO_UNITS_WHATEVER, right = PJ_IO_UNITS_WHATEVER,
      helmert = None, axisswap = None, hgridshift = None, vgridshift = None,
      cart = None, cart_wgs84 = None,
      geoc = False, over = False, is_geocent = False,
      from_greenwich = Finite 0, lam0 = Finite 0,
      to_meter = Finite 1, vto_meter = Finite 1,
      x0 = Finite 0, y0 = Finite 0, z0 = Finite 0, ra = Finite 1,
      skip_inv_prepare = False, skip_inv_finalize = False,
      inv2d = None, inv3d = None, inv4d = None\<rparr>"

text \<open>A sub-operation and transform functions that change nothing.\<close>

definition sub_identity :: PJ_sub where
  "sub_identity direction coo s = (coo, s)"

text \<open>A sub-operation that fails: it marks the coordinate and sets its own error code.\<close>

definition sub_failing :: PJ_sub where
  "sub_failing direction coo s = (proj_coord_error, Other_errno (- 48))"

text \<open>A sub-operation that replaces the coordinate by the origin.\<close>

definition sub_zero :: PJ_sub where
  "sub_zero direction coo s = (\<lparr>v0 = Finite 0, v1 = Finite 0, v2 = Finite 0, v3 = Finite 0\<rparr>, s)"


section \<open>Properties\<close>

subsection \<open>Helper facts\<close>

lemma d_eq_HUGE [simp]:
  "d_eq a HUGE_VAL = (a = HUGE_VAL)" "d_eq HUGE_VAL a = (a = HUGE_VAL)"
  by (auto simp: d_eq_def HUGE_VAL_def)

lemma v0_proj_coord_error [simp]: "v0 proj_coord_error = HUGE_VAL"
  by (simp add: proj_coord_error_def)

lemma pj_inv_prepare_sentinel:
  "v0 coo = HUGE_VAL \<Longrightarrow>
     pj_inv_prepare E P coo s = (proj_coord_error, PJD_ERR_INVALID_X_OR_Y)"
  by (simp add: pj_inv_prepare_def proj_errno_set_def)

text \<open>The definitions that evaluate the stages on the example inputs.\<close>

lemmas example_defs = PJ_example_def env_example_def pj_inv_prepare_def helmert_fill_def
  pj_inv_prepare_linear_def pj_inv_finalize_def proj_trans_def proj_coord_error_def
  coo_xy_def coo_xyz_def set_lp_def set_lpz_def proj_errno_set_def d_eq_def HUGE_VAL_def

lemmas angular_defs = pj_inv_prepare_angular_def lat_or_lon_exceeds_def clamp_lat_def
  to_central_meridian_def pj_inv_prepare_shifts_def horizontal_shift_def d_sub_def d_gt_def

lemma pj_inv_prepare_path:
  assumes "v0 coo \<noteq> HUGE_VAL"
    and "proj_trans (axisswap P) PJ_INV (helmert_fill P coo) s = (c, s1)"
  shows "pj_inv_prepare E P coo s =
           (if INPUT_UNITS P = PJ_IO_UNITS_ANGULAR then pj_inv_prepare_angular E P c s1
            else pj_inv_prepare_linear P c s1)"
  using assms
  by (cases "axisswap P") (simp_all add: pj_inv_prepare_def proj_trans_def Let_def)

text \<open>The normalization of the specification: its range, and its fixed points.\<close>

lemma adjlon_spec_Finite:
  "\<exists>k::int. adjlon_spec (Finite a) = Finite (a - 2 * pi * of_int k)
     \<and> - pi < a - 2 * pi * of_int k \<and> a - 2 * pi * of_int k \<le> pi"
proof -
  define x where "x = (a - pi) / (2 * pi)"
  define k where "k = \<lceil>x\<rceil>"
  have pos: "0 < 2 * pi" by simp
  have "of_int k - 1 < x" and "x \<le> of_int k"
    unfolding k_def by linarith+
  then have "(of_int k - 1) * (2 * pi) < a - pi" and "a - pi \<le> of_int k * (2 * pi)"
    unfolding x_def using pos by (simp_all add: pos_less_divide_eq pos_divide_le_eq)
  then have "- pi < a - 2 * pi * of_int k" and "a - 2 * pi * of_int k \<le> pi"
    by (simp_all add: algebra_simps)
  moreover have "adjlon_spec (Finite a) = Finite (a - 2 * pi * of_int k)"
    by (simp add: adjlon_spec_def k_def x_def)
  ultimately show ?thesis by blast
qed

lemma adjlon_spec_fixed:
  assumes "- pi < a" and "a \<le> pi"
  shows "adjlon_spec (Finite a) = Finite a"
proof -
  have pos: "0 < 2 * pi" by simp
  have "(a - pi) / (2 * pi) \<le> 0"
    using assms pos by (simp add: divide_le_0_iff)
  moreover have "- 1 < (a - pi) / (2 * pi)"
    using assms pos by (simp add: pos_less_divide_eq)
  ultimately have "\<lceil>(a - pi) / (2 * pi)\<rceil> = 0"
    by (simp add: ceiling_eq_iff)
  then show ?thesis
    by (simp add: adjlon_spec_def)
qed

lemma adjlon_spec_0 [simp]: "adjlon_spec (Finite 0) = Finite 0"
  by (rule adjlon_spec_fixed) simp_all

lemma adjlon_spec_1 [simp]: "adjlon_spec (Finite 1) = Finite 1"
proof (rule adjlon_spec_fixed)
  show "- pi < 1"
    using pi_gt_zero by linarith
  show "1 \<le> pi"
    using pi_ge_two by linarith
qed

subsection \<open>Dispatch\<close>

lemma first_available_none:
  "first_available P (fallback_order d) = None \<longleftrightarrow>
     inv2d P = None \<and> inv3d P = None \<and> inv4d P = None"
  by (cases d) (auto split: option.splits)

lemma pj_inv4d_orchestrate: "pj_inv4d E coo P s = orchestrate Dim4 E P coo s"
  by (simp add: pj_inv4d_def orchestrate_def dispatch_def Let_def
      split: prod.splits option.splits)

lemma pj_inv3d_orchestrate:
  "pj_inv3d E xyz P s =
     (let (coo, s') = orchestrate Dim3 E P
                        \<lparr>v0 = fst xyz, v1 = fst (snd xyz), v2 = snd (snd xyz), v3 = Finite 0\<rparr> s
      in (coo_xyz coo, s'))"
  by (simp add: pj_inv3d_def orchestrate_def dispatch_def Let_def
      split: prod.splits option.splits)

lemma pj_inv_orchestrate:
  "pj_inv E xy P s =
     (let (coo, s') = orchestrate Dim2 E P
                        \<lparr>v0 = fst xy, v1 = snd xy, v2 = Finite 0, v3 = Finite 0\<rparr> s
      in (coo_xy coo, s'))"
  by (simp add: pj_inv_def orchestrate_def dispatch_def Let_def
      split: prod.splits option.splits)

text \<open>
  Claim C1.  Each entry point is the orchestrator with the dispatch made in the fixed
  order of its dimensionality: the 2D call tries the 2D, the 3D, then the 4D
  implementation, the 3D call the 3D, the 4D, then the 2D one, the 4D call the 4D, the
  3D, then the 2D one, and the first that exists is run.  No implementation is
  available exactly when the descriptor has none of the three; the dispatch then sets
  \<^verbatim>\<open>EINVAL\<close> and gives the sentinel-marked coordinate.
\<close>

theorem dispatch_fallback_order:
  "pj_inv E xy P s =
     (let (coo, s') = orchestrate Dim2 E P
                        \<lparr>v0 = fst xy, v1 = snd xy, v2 = Finite 0, v3 = Finite 0\<rparr> s
      in (coo_xy coo, s'))
   \<and> pj_inv3d E xyz P s =
     (let (coo, s') = orchestrate Dim3 E P
                        \<lparr>v0 = fst xyz, v1 = fst (snd xyz), v2 = snd (snd xyz), v3 = Finite 0\<rparr> s
      in (coo_xyz coo, s'))
   \<and> pj_inv4d E coo P s = orchestrate Dim4 E P coo s
   \<and> (first_available P (fallback_order d) = None \<longleftrightarrow>
        inv2d P = None \<and> inv3d P = None \<and> inv4d P = None)"
  using pj_inv_orchestrate pj_inv3d_orchestrate pj_inv4d_orchestrate first_available_none
  by blast

text \<open>
  A 2D call on a descriptor with a 4D implementation only returns the horizontal
  components of the 4D result; a 4D call on a descriptor with no implementation fails
  with \<^verbatim>\<open>EINVAL\<close>.
\<close>

theorem dispatch_fallback_order_witness:
  "pj_inv env_example (Finite 1, Finite 2)
     (PJ_example\<lparr>inv4d := Some (\<lambda>coo s. (coo\<lparr>v0 := v1 coo, v1 := v0 coo, v3 := Finite 7\<rparr>, s))\<rparr>)
     No_errno = ((Finite 2, Finite 1), No_errno)
   \<and> pj_inv4d env_example \<lparr>v0 = Finite 1, v1 = Finite 2, v2 = Finite 3, v3 = Finite 4\<rparr>
     PJ_example No_errno = (proj_coord_error, EINVAL)"
  using dispatch_fallback_order [of env_example "(Finite 1, Finite 2)"
     "PJ_example\<lparr>inv4d := Some (\<lambda>coo s. (coo\<lparr>v0 := v1 coo, v1 := v0 coo, v3 := Finite 7\<rparr>, s))\<rparr>"
     No_errno]
     dispatch_fallback_order [of env_example "(Finite 1, Finite 2)" PJ_example No_errno
       "(Finite 1, Finite 2, Finite 3)"
       "\<lparr>v0 = Finite 1, v1 = Finite 2, v2 = Finite 3, v3 = Finite 4\<rparr>" Dim4]
  by (simp add: orchestrate_def dispatch_def example_defs)

subsection \<open>Sentinel input\<close>

text \<open>
  Claim C9.  At each entry point, an input whose first component is the sentinel gives
  the error coordinate.  With Prepare skipped the state is untouched; otherwise it is
  the error code of Prepare's own check.  The right-hand sides do not depend on the
  transform functions of the descriptor: none of them is run.
\<close>

theorem sentinel_input_never_dispatched:
  "(v0 coo = HUGE_VAL \<longrightarrow>
      pj_inv4d E coo P s =
        (proj_coord_error, if skip_inv_prepare P then s else PJD_ERR_INVALID_X_OR_Y))
   \<and> (fst xyz = HUGE_VAL \<longrightarrow>
      pj_inv3d E xyz P s =
        (coo_xyz proj_coord_error, if skip_inv_prepare P then s else PJD_ERR_INVALID_X_OR_Y))
   \<and> (fst xy = HUGE_VAL \<longrightarrow>
      pj_inv E xy P s =
        (coo_xy proj_coord_error, if skip_inv_prepare P then s else PJD_ERR_INVALID_X_OR_Y))"
  by (simp add: pj_inv4d_def pj_inv3d_def pj_inv_def pj_inv_prepare_sentinel)

text \<open>
  A sentinel first component with a transform function that would return a valid
  coordinate, with Prepare skipped and not skipped.
\<close>

theorem sentinel_input_never_dispatched_witness:
  "pj_inv4d env_example \<lparr>v0 = HUGE_VAL, v1 = Finite 2, v2 = Finite 3, v3 = Finite 4\<rparr>
     (PJ_example\<lparr>skip_inv_prepare := True,
        inv4d := Some (\<lambda>coo s. (coo\<lparr>v0 := Finite 5\<rparr>, Other_errno 1))\<rparr>) No_errno
     = (proj_coord_error, No_errno)
   \<and> pj_inv env_example (HUGE_VAL, Finite 2)
     (PJ_example\<lparr>inv2d := Some (\<lambda>xy s. ((Finite 5, Finite 6), Other_errno 1))\<rparr>) No_errno
     = ((HUGE_VAL, HUGE_VAL), PJD_ERR_INVALID_X_OR_Y)"
  using sentinel_input_never_dispatched [of
      "\<lparr>v0 = HUGE_VAL, v1 = Finite 2, v2 = Finite 3, v3 = Finite 4\<rparr>" env_example
      "PJ_example\<lparr>skip_inv_prepare := True,
        inv4d := Some (\<lambda>coo s. (coo\<lparr>v0 := Finite 5\<rparr>, Other_errno 1))\<rparr>" No_errno
      "(HUGE_VAL, Finite 2, Finite 3)" "(HUGE_VAL, Finite 2)"]
    sentinel_input_never_dispatched [of
      "\<lparr>v0 = HUGE_VAL, v1 = Finite 2, v2 = Finite 3, v3 = Finite 4\<rparr>" env_example
      "PJ_example\<lparr>inv2d := Some (\<lambda>xy s. ((Finite 5, Finite 6), Other_errno 1))\<rparr>" No_errno
      "(HUGE_VAL, Finite 2, Finite 3)" "(HUGE_VAL, Finite 2)"]
  by (simp add: PJ_example_def proj_coord_error_def coo_xy_def)

subsection \<open>The range check of Prepare\<close>

lemma d_abs_cond: "(if d_lt a (Finite 0) then d_neg a else a) = d_abs a"
  by (cases a) auto

lemma d_abs_gt_10: "d_gt (d_abs a) (Finite 10) \<longleftrightarrow> d_gt a (Finite 10) \<or> d_lt a (Finite (- 10))"
  by (cases a) (auto simp: d_gt_def)

lemma lat_or_lon_exceeds_amended: "lat_or_lon_exceeds E coo = exceeds_limit_amended E coo"
  by (simp add: lat_or_lon_exceeds_def exceeds_limit_amended_def d_abs_cond d_abs_gt_10)

text \<open>
  Claim C2, as the code has it.  For angular input units and a first component that is
  not the sentinel, Prepare tests the coordinate \<open>c\<close> that the axis swap returns.  It
  fails with \<^verbatim>\<open>PJD_ERR_LAT_OR_LON_EXCEED_LIMIT\<close> and the sentinel-marked coordinate when
  \<open>abs(latitude) - 90\<degree> > \<epsilon>\<close> or \<open>|longitude| > 10\<close>, and otherwise goes on with the
  clamped latitude: there is no outer absolute value around \<open>abs(latitude) - 90\<degree>\<close>.
\<close>

theorem range_check_rejects_exactly:
  assumes "v0 coo \<noteq> HUGE_VAL"
    and "INPUT_UNITS P = PJ_IO_UNITS_ANGULAR"
    and "proj_trans (axisswap P) PJ_INV (helmert_fill P coo) s = (c, s1)"
  shows "pj_inv_prepare E P coo s =
           (if exceeds_limit_amended E c
            then (proj_coord_error, PJD_ERR_LAT_OR_LON_EXCEED_LIMIT)
            else pj_inv_prepare_shifts P
                   (to_central_meridian E P
                      (if geoc P then proj_geocentric_latitude E PJ_INV (clamp_lat E c)
                       else clamp_lat E c)) s1)"
  using assms
  by (simp add: pj_inv_prepare_path pj_inv_prepare_angular_def lat_or_lon_exceeds_amended
      proj_errno_set_def Let_def)

text \<open>A latitude of 2 radians is rejected, a latitude of 1 radian is not.\<close>

theorem range_check_rejects_exactly_witness:
  "pj_inv_prepare env_example (PJ_example\<lparr>right := PJ_IO_UNITS_ANGULAR\<rparr>)
       \<lparr>v0 = Finite 0, v1 = Finite 2, v2 = Finite 0, v3 = Finite 0\<rparr> No_errno
     = (proj_coord_error, PJD_ERR_LAT_OR_LON_EXCEED_LIMIT)
   \<and> pj_inv_prepare env_example (PJ_example\<lparr>right := PJ_IO_UNITS_ANGULAR\<rparr>)
       \<lparr>v0 = Finite 0, v1 = Finite 1, v2 = Finite 0, v3 = Finite 0\<rparr> No_errno
     = (\<lparr>v0 = Finite 0, v1 = Finite 1, v2 = Finite 0, v3 = Finite 0\<rparr>, No_errno)"
  using range_check_rejects_exactly [of "\<lparr>v0 = Finite 0, v1 = Finite 2, v2 = Finite 0, v3 = Finite 0\<rparr>"
      "PJ_example\<lparr>right := PJ_IO_UNITS_ANGULAR\<rparr>" No_errno
      "\<lparr>v0 = Finite 0, v1 = Finite 2, v2 = Finite 0, v3 = Finite 0\<rparr>" No_errno env_example]
    range_check_rejects_exactly [of "\<lparr>v0 = Finite 0, v1 = Finite 1, v2 = Finite 0, v3 = Finite 0\<rparr>"
      "PJ_example\<lparr>right := PJ_IO_UNITS_ANGULAR\<rparr>" No_errno
      "\<lparr>v0 = Finite 0, v1 = Finite 1, v2 = Finite 0, v3 = Finite 0\<rparr>" No_errno env_example]
  by (simp add: exceeds_limit_amended_def example_defs
      clamp_lat_def to_central_meridian_def pj_inv_prepare_shifts_def
      horizontal_shift_def d_sub_def d_gt_def)

text \<open>
  The claim as worded fails at latitude 0: \<open>|abs(0) - 90\<degree>| > \<epsilon>\<close> holds, and Prepare
  returns the coordinate with no error set.  It also fails at a sentinel longitude:
  \<open>|longitude| > 10\<close> holds, and the error is the one of the opening sentinel check.
\<close>

theorem range_check_claimed_counterexample:
  "exceeds_limit_claimed env_example \<lparr>v0 = Finite 0, v1 = Finite 0, v2 = Finite 0, v3 = Finite 0\<rparr>
   \<and> pj_inv_prepare env_example (PJ_example\<lparr>right := PJ_IO_UNITS_ANGULAR\<rparr>)
       \<lparr>v0 = Finite 0, v1 = Finite 0, v2 = Finite 0, v3 = Finite 0\<rparr> No_errno
     = (\<lparr>v0 = Finite 0, v1 = Finite 0, v2 = Finite 0, v3 = Finite 0\<rparr>, No_errno)
   \<and> exceeds_limit_claimed env_example \<lparr>v0 = HUGE_VAL, v1 = Finite 0, v2 = Finite 0, v3 = Finite 0\<rparr>
   \<and> pj_inv_prepare env_example (PJ_example\<lparr>right := PJ_IO_UNITS_ANGULAR\<rparr>)
       \<lparr>v0 = HUGE_VAL, v1 = Finite 0, v2 = Finite 0, v3 = Finite 0\<rparr> No_errno
     = (proj_coord_error, PJD_ERR_INVALID_X_OR_Y)"
  by (simp add: exceeds_limit_claimed_def example_defs pj_inv_prepare_angular_def
      lat_or_lon_exceeds_def clamp_lat_def to_central_meridian_def pj_inv_prepare_shifts_def
      horizontal_shift_def d_sub_def d_gt_def)

subsection \<open>The latitude clamp\<close>

lemma clamp_lat_Finite:
  assumes "M_HALFPI E = Finite h" and "v1 c = Finite p"
  shows "clamp_lat E c = c\<lparr>v1 := Finite (max (- h) (min h p))\<rparr>"
  using assms by (auto simp: clamp_lat_def d_gt_def Let_def max_def min_def)

lemma not_exceeds_Finite:
  assumes "M_HALFPI E = Finite h" and "PJ_EPS_LAT E = Finite e"
    and "v1 c = Finite p" and "\<bar>p\<bar> \<le> h + e"
    and "v0 c = Finite l" and "\<bar>l\<bar> \<le> 10"
  shows "\<not> lat_or_lon_exceeds E c"
  using assms by (auto simp: lat_or_lon_exceeds_def d_gt_def d_sub_def Let_def)

text \<open>
  Claim C3.  For angular input units, take the coordinate \<open>c\<close> that reaches the range
  check, with a finite latitude \<open>p\<close> and a finite longitude \<open>l\<close>.  If \<open>|p| \<le> 90\<degree> + \<epsilon>\<close> and
  \<open>|l| \<le> 10\<close>, the range check does not fire, the latitude is clamped to
  \<open>max (-90\<degree>) (min 90\<degree> p)\<close>, which lies in \<open>[-90\<degree>, 90\<degree>]\<close>, and everything that
  follows (the geocentric conversion, the central meridian, the datum shifts) runs on
  the clamped coordinate.  A latitude over the pole by at most \<open>\<epsilon>\<close> is clamped to the
  pole, not rejected.
\<close>

theorem latitude_clamped_within_tolerance:
  assumes "v0 coo \<noteq> HUGE_VAL"
    and "INPUT_UNITS P = PJ_IO_UNITS_ANGULAR"
    and "proj_trans (axisswap P) PJ_INV (helmert_fill P coo) s = (c, s1)"
    and "M_HALFPI E = Finite h" and "0 \<le> h" and "PJ_EPS_LAT E = Finite e"
    and "v1 c = Finite p" and "\<bar>p\<bar> \<le> h + e"
    and "v0 c = Finite l" and "\<bar>l\<bar> \<le> 10"
  shows "\<not> lat_or_lon_exceeds E c
       \<and> - h \<le> max (- h) (min h p) \<and> max (- h) (min h p) \<le> h
       \<and> clamp_lat E c = c\<lparr>v1 := Finite (max (- h) (min h p))\<rparr>
       \<and> pj_inv_prepare E P coo s =
           pj_inv_prepare_shifts P
             (to_central_meridian E P
                (if geoc P
                 then proj_geocentric_latitude E PJ_INV (c\<lparr>v1 := Finite (max (- h) (min h p))\<rparr>)
                 else c\<lparr>v1 := Finite (max (- h) (min h p))\<rparr>)) s1"
proof -
  have ok: "\<not> lat_or_lon_exceeds E c"
    using assms by (intro not_exceeds_Finite) auto
  have cl: "clamp_lat E c = c\<lparr>v1 := Finite (max (- h) (min h p))\<rparr>"
    using assms by (intro clamp_lat_Finite) auto
  have "pj_inv_prepare E P coo s = pj_inv_prepare_angular E P c s1"
    using assms(1-3) by (simp add: pj_inv_prepare_path)
  then have "pj_inv_prepare E P coo s =
           pj_inv_prepare_shifts P
             (to_central_meridian E P
                (if geoc P then proj_geocentric_latitude E PJ_INV (clamp_lat E c)
                 else clamp_lat E c)) s1"
    using ok by (simp add: pj_inv_prepare_angular_def Let_def)
  moreover have "- h \<le> max (- h) (min h p)" "max (- h) (min h p) \<le> h"
    using \<open>0 \<le> h\<close> by auto
  ultimately show ?thesis
    using ok cl by simp
qed

text \<open>A latitude over the pole by a tenth of the tolerance comes out as the pole.\<close>

theorem latitude_clamped_within_tolerance_witness:
  "pj_inv_prepare env_example (PJ_example\<lparr>right := PJ_IO_UNITS_ANGULAR\<rparr>)
       \<lparr>v0 = Finite 0, v1 = Finite (15707963267948966 / 10 ^ 16 + 1 / 10 ^ 13),
        v2 = Finite 0, v3 = Finite 0\<rparr> No_errno
     = (\<lparr>v0 = Finite 0, v1 = Finite (15707963267948966 / 10 ^ 16), v2 = Finite 0, v3 = Finite 0\<rparr>,
        No_errno)"
  using latitude_clamped_within_tolerance [of
      "\<lparr>v0 = Finite 0, v1 = Finite (15707963267948966 / 10 ^ 16 + 1 / 10 ^ 13),
        v2 = Finite 0, v3 = Finite 0\<rparr>"
      "PJ_example\<lparr>right := PJ_IO_UNITS_ANGULAR\<rparr>" No_errno
      "\<lparr>v0 = Finite 0, v1 = Finite (15707963267948966 / 10 ^ 16 + 1 / 10 ^ 13),
        v2 = Finite 0, v3 = Finite 0\<rparr>" No_errno env_example
      "15707963267948966 / 10 ^ 16" "1 / 10 ^ 12" "15707963267948966 / 10 ^ 16 + 1 / 10 ^ 13" 0]
  by (simp add: example_defs angular_defs)

subsection \<open>The longitude normalization\<close>

lemma pj_inv_prepare_shifts_none:
  assumes "hgridshift P = None" and "helmert P = None" and "vgridshift P = None"
  shows "pj_inv_prepare_shifts P c s = (c, s)"
  using assms by (simp add: pj_inv_prepare_shifts_def horizontal_shift_def)

text \<open>
  Claim C4, as the code has it.  For angular input units, finite longitude,
  prime-meridian correction and central meridian, \<^verbatim>\<open>P->over\<close> zero and \<^verbatim>\<open>adjlon\<close> the
  normalization of the specification.  An input that the range check of lines 56-57
  rejects gets the sentinel-marked coordinate and \<^verbatim>\<open>PJD_ERR_LAT_OR_LON_EXCEED_LIMIT\<close>; no
  longitude is computed for it.  For every other input Prepare computes
  \<open>(lam + from_greenwich) - lam0\<close> and replaces it by the value in \<open>(-\<pi>, \<pi>]\<close> that
  differs from it by a whole number \<open>k\<close> of turns; the datum shifts receive that
  longitude, and with no datum shift configured it is the longitude Prepare returns.
\<close>

theorem longitude_normalized:
  assumes "v0 coo \<noteq> HUGE_VAL"
    and "INPUT_UNITS P = PJ_IO_UNITS_ANGULAR"
    and "proj_trans (axisswap P) PJ_INV (helmert_fill P coo) s = (c, s1)"
    and "(if geoc P then proj_geocentric_latitude E PJ_INV (clamp_lat E c) else clamp_lat E c) = c2"
    and "v0 c2 = Finite l" and "from_greenwich P = Finite g" and "lam0 P = Finite m"
    and "\<not> over P" and "adjlon E = adjlon_spec"
  shows "if lat_or_lon_exceeds E c
         then pj_inv_prepare E P coo s = (proj_coord_error, PJD_ERR_LAT_OR_LON_EXCEED_LIMIT)
         else (\<exists>k::int.
            - pi < (l + g) - m - 2 * pi * of_int k \<and> (l + g) - m - 2 * pi * of_int k \<le> pi
          \<and> to_central_meridian E P c2 = c2\<lparr>v0 := Finite ((l + g) - m - 2 * pi * of_int k)\<rparr>
          \<and> pj_inv_prepare E P coo s =
              pj_inv_prepare_shifts P (c2\<lparr>v0 := Finite ((l + g) - m - 2 * pi * of_int k)\<rparr>) s1
          \<and> (hgridshift P = None \<and> helmert P = None \<and> vgridshift P = None \<longrightarrow>
               pj_inv_prepare E P coo s =
                 (c2\<lparr>v0 := Finite ((l + g) - m - 2 * pi * of_int k)\<rparr>, s1)))"
proof (cases "lat_or_lon_exceeds E c")
  case True
  have "pj_inv_prepare E P coo s = pj_inv_prepare_angular E P c s1"
    using assms(1-3) by (simp add: pj_inv_prepare_path)
  then show ?thesis
    using True by (simp add: pj_inv_prepare_angular_def proj_errno_set_def)
next
  case False
  obtain k :: int where k: "adjlon_spec (Finite ((l + g) - m)) = Finite ((l + g) - m - 2 * pi * of_int k)"
    "- pi < (l + g) - m - 2 * pi * of_int k" "(l + g) - m - 2 * pi * of_int k \<le> pi"
    using adjlon_spec_Finite [of "(l + g) - m"] by blast
  have tcm: "to_central_meridian E P c2 = c2\<lparr>v0 := Finite ((l + g) - m - 2 * pi * of_int k)\<rparr>"
    using assms(5-9) k(1) by (simp add: to_central_meridian_def d_sub_def Let_def)
  have "pj_inv_prepare E P coo s = pj_inv_prepare_angular E P c s1"
    using assms(1-3) by (simp add: pj_inv_prepare_path)
  then have run: "pj_inv_prepare E P coo s =
      pj_inv_prepare_shifts P (c2\<lparr>v0 := Finite ((l + g) - m - 2 * pi * of_int k)\<rparr>) s1"
    using False assms(4) tcm by (auto simp: pj_inv_prepare_angular_def Let_def)
  have "\<exists>k::int.
            - pi < (l + g) - m - 2 * pi * of_int k \<and> (l + g) - m - 2 * pi * of_int k \<le> pi
          \<and> to_central_meridian E P c2 = c2\<lparr>v0 := Finite ((l + g) - m - 2 * pi * of_int k)\<rparr>
          \<and> pj_inv_prepare E P coo s =
              pj_inv_prepare_shifts P (c2\<lparr>v0 := Finite ((l + g) - m - 2 * pi * of_int k)\<rparr>) s1
          \<and> (hgridshift P = None \<and> helmert P = None \<and> vgridshift P = None \<longrightarrow>
               pj_inv_prepare E P coo s =
                 (c2\<lparr>v0 := Finite ((l + g) - m - 2 * pi * of_int k)\<rparr>, s1))"
    using k(2,3) tcm run by (intro exI [of _ k]) (simp add: pj_inv_prepare_shifts_none)
  then show ?thesis
    using False by simp
qed

text \<open>
  A longitude of 4 radians on a descriptor with no sub-operation is normalized; a
  longitude of 11 radians is rejected.
\<close>

theorem longitude_normalized_witness:
  "(\<exists>k::int. - pi < (4 + 0) - 0 - 2 * pi * of_int k \<and> (4 + 0) - 0 - 2 * pi * of_int k \<le> pi
     \<and> pj_inv_prepare env_example (PJ_example\<lparr>right := PJ_IO_UNITS_ANGULAR\<rparr>)
         \<lparr>v0 = Finite 4, v1 = Finite 1, v2 = Finite 0, v3 = Finite 0\<rparr> No_errno
       = (\<lparr>v0 = Finite ((4 + 0) - 0 - 2 * pi * of_int k), v1 = Finite 1, v2 = Finite 0, v3 = Finite 0\<rparr>,
          No_errno))
   \<and> pj_inv_prepare env_example (PJ_example\<lparr>right := PJ_IO_UNITS_ANGULAR\<rparr>)
         \<lparr>v0 = Finite 11, v1 = Finite 1, v2 = Finite 0, v3 = Finite 0\<rparr> No_errno
       = (proj_coord_error, PJD_ERR_LAT_OR_LON_EXCEED_LIMIT)"
proof -
  have ok: "\<not> lat_or_lon_exceeds env_example
              \<lparr>v0 = Finite 4, v1 = Finite 1, v2 = Finite 0, v3 = Finite 0\<rparr>"
    by (simp add: env_example_def lat_or_lon_exceeds_def d_sub_def d_gt_def)
  have ex: "lat_or_lon_exceeds env_example
              \<lparr>v0 = Finite 11, v1 = Finite 1, v2 = Finite 0, v3 = Finite 0\<rparr>"
    by (simp add: env_example_def lat_or_lon_exceeds_def d_sub_def d_gt_def)
  have "if lat_or_lon_exceeds env_example
             \<lparr>v0 = Finite 4, v1 = Finite 1, v2 = Finite 0, v3 = Finite 0\<rparr>
        then pj_inv_prepare env_example (PJ_example\<lparr>right := PJ_IO_UNITS_ANGULAR\<rparr>)
               \<lparr>v0 = Finite 4, v1 = Finite 1, v2 = Finite 0, v3 = Finite 0\<rparr> No_errno
             = (proj_coord_error, PJD_ERR_LAT_OR_LON_EXCEED_LIMIT)
        else (\<exists>k::int.
            - pi < (4 + 0) - 0 - 2 * pi * of_int k \<and> (4 + 0) - 0 - 2 * pi * of_int k \<le> pi
          \<and> to_central_meridian env_example (PJ_example\<lparr>right := PJ_IO_UNITS_ANGULAR\<rparr>)
               \<lparr>v0 = Finite 4, v1 = Finite 1, v2 = Finite 0, v3 = Finite 0\<rparr>
             = \<lparr>v0 = Finite 4, v1 = Finite 1, v2 = Finite 0, v3 = Finite 0\<rparr>
                 \<lparr>v0 := Finite ((4 + 0) - 0 - 2 * pi * of_int k)\<rparr>
          \<and> pj_inv_prepare env_example (PJ_example\<lparr>right := PJ_IO_UNITS_ANGULAR\<rparr>)
               \<lparr>v0 = Finite 4, v1 = Finite 1, v2 = Finite 0, v3 = Finite 0\<rparr> No_errno =
              pj_inv_prepare_shifts (PJ_example\<lparr>right := PJ_IO_UNITS_ANGULAR\<rparr>)
                (\<lparr>v0 = Finite 4, v1 = Finite 1, v2 = Finite 0, v3 = Finite 0\<rparr>
                   \<lparr>v0 := Finite ((4 + 0) - 0 - 2 * pi * of_int k)\<rparr>) No_errno
          \<and> (hgridshift (PJ_example\<lparr>right := PJ_IO_UNITS_ANGULAR\<rparr>) = None
             \<and> helmert (PJ_example\<lparr>right := PJ_IO_UNITS_ANGULAR\<rparr>) = None
             \<and> vgridshift (PJ_example\<lparr>right := PJ_IO_UNITS_ANGULAR\<rparr>) = None \<longrightarrow>
               pj_inv_prepare env_example (PJ_example\<lparr>right := PJ_IO_UNITS_ANGULAR\<rparr>)
                 \<lparr>v0 = Finite 4, v1 = Finite 1, v2 = Finite 0, v3 = Finite 0\<rparr> No_errno
               = (\<lparr>v0 = Finite 4, v1 = Finite 1, v2 = Finite 0, v3 = Finite 0\<rparr>
                    \<lparr>v0 := Finite ((4 + 0) - 0 - 2 * pi * of_int k)\<rparr>, No_errno)))"
    by (rule longitude_normalized)
       (simp_all add: PJ_example_def env_example_def helmert_fill_def proj_trans_def HUGE_VAL_def
          d_eq_def clamp_lat_def d_gt_def)
  then have a: "\<exists>k::int. - pi < (4 + 0) - 0 - 2 * pi * of_int k \<and> (4 + 0) - 0 - 2 * pi * of_int k \<le> pi
     \<and> pj_inv_prepare env_example (PJ_example\<lparr>right := PJ_IO_UNITS_ANGULAR\<rparr>)
         \<lparr>v0 = Finite 4, v1 = Finite 1, v2 = Finite 0, v3 = Finite 0\<rparr> No_errno
       = (\<lparr>v0 = Finite ((4 + 0) - 0 - 2 * pi * of_int k), v1 = Finite 1, v2 = Finite 0, v3 = Finite 0\<rparr>,
          No_errno)"
    using ok by (auto simp: PJ_example_def)
  have "if lat_or_lon_exceeds env_example
             \<lparr>v0 = Finite 11, v1 = Finite 1, v2 = Finite 0, v3 = Finite 0\<rparr>
        then pj_inv_prepare env_example (PJ_example\<lparr>right := PJ_IO_UNITS_ANGULAR\<rparr>)
               \<lparr>v0 = Finite 11, v1 = Finite 1, v2 = Finite 0, v3 = Finite 0\<rparr> No_errno
             = (proj_coord_error, PJD_ERR_LAT_OR_LON_EXCEED_LIMIT)
        else (\<exists>k::int.
            - pi < (11 + 0) - 0 - 2 * pi * of_int k \<and> (11 + 0) - 0 - 2 * pi * of_int k \<le> pi
          \<and> to_central_meridian env_example (PJ_example\<lparr>right := PJ_IO_UNITS_ANGULAR\<rparr>)
               \<lparr>v0 = Finite 11, v1 = Finite 1, v2 = Finite 0, v3 = Finite 0\<rparr>
             = \<lparr>v0 = Finite 11, v1 = Finite 1, v2 = Finite 0, v3 = Finite 0\<rparr>
                 \<lparr>v0 := Finite ((11 + 0) - 0 - 2 * pi * of_int k)\<rparr>
          \<and> pj_inv_prepare env_example (PJ_example\<lparr>right := PJ_IO_UNITS_ANGULAR\<rparr>)
               \<lparr>v0 = Finite 11, v1 = Finite 1, v2 = Finite 0, v3 = Finite 0\<rparr> No_errno =
              pj_inv_prepare_shifts (PJ_example\<lparr>right := PJ_IO_UNITS_ANGULAR\<rparr>)
                (\<lparr>v0 = Finite 11, v1 = Finite 1, v2 = Finite 0, v3 = Finite 0\<rparr>
                   \<lparr>v0 := Finite ((11 + 0) - 0 - 2 * pi * of_int k)\<rparr>) No_errno
          \<and> (hgridshift (PJ_example\<lparr>right := PJ_IO_UNITS_ANGULAR\<rparr>) = None
             \<and> helmert (PJ_example\<lparr>right := PJ_IO_UNITS_ANGULAR\<rparr>) = None
             \<and> vgridshift (PJ_example\<lparr>right := PJ_IO_UNITS_ANGULAR\<rparr>) = None \<longrightarrow>
               pj_inv_prepare env_example (PJ_example\<lparr>right := PJ_IO_UNITS_ANGULAR\<rparr>)
                 \<lparr>v0 = Finite 11, v1 = Finite 1, v2 = Finite 0, v3 = Finite 0\<rparr> No_errno
               = (\<lparr>v0 = Finite 11, v1 = Finite 1, v2 = Finite 0, v3 = Finite 0\<rparr>
                    \<lparr>v0 := Finite ((11 + 0) - 0 - 2 * pi * of_int k)\<rparr>, No_errno)))"
    by (rule longitude_normalized)
       (simp_all add: PJ_example_def env_example_def helmert_fill_def proj_trans_def HUGE_VAL_def
          d_eq_def clamp_lat_def d_gt_def)
  then have b: "pj_inv_prepare env_example (PJ_example\<lparr>right := PJ_IO_UNITS_ANGULAR\<rparr>)
         \<lparr>v0 = Finite 11, v1 = Finite 1, v2 = Finite 0, v3 = Finite 0\<rparr> No_errno
       = (proj_coord_error, PJD_ERR_LAT_OR_LON_EXCEED_LIMIT)"
    using ex by simp
  show ?thesis
    using a b by blast
qed

text \<open>
  The claim as worded fails at the finite longitude 11: Prepare returns the sentinel
  longitude, which is not a value in \<open>(-\<pi>, \<pi>]\<close>, although over-range is not allowed and
  \<^verbatim>\<open>adjlon\<close> is the normalization of the specification.
\<close>

theorem longitude_normalized_counterexample:
  "\<not> over (PJ_example\<lparr>right := PJ_IO_UNITS_ANGULAR\<rparr>)
   \<and> adjlon env_example = adjlon_spec
   \<and> pj_inv_prepare env_example (PJ_example\<lparr>right := PJ_IO_UNITS_ANGULAR\<rparr>)
       \<lparr>v0 = Finite 11, v1 = Finite 0, v2 = Finite 0, v3 = Finite 0\<rparr> No_errno
     = (proj_coord_error, PJD_ERR_LAT_OR_LON_EXCEED_LIMIT)
   \<and> v0 proj_coord_error = HUGE_VAL
   \<and> (\<forall>a. HUGE_VAL \<noteq> Finite a)"
  by (simp add: example_defs pj_inv_prepare_angular_def lat_or_lon_exceeds_def
      d_sub_def d_gt_def)

subsection \<open>Sentinel propagation out of the horizontal datum shift\<close>

lemma pj_inv_prepare_shifts_sentinel:
  assumes "horizontal_shift P c s = (c', s')" and "v0 c' = HUGE_VAL"
  shows "pj_inv_prepare_shifts P c s = (c', s')"
  using assms by (simp add: pj_inv_prepare_shifts_def)

lemma pj_inv_finalize_path:
  assumes "v0 coo \<noteq> HUGE_VAL"
    and "OUTPUT_UNITS P = PJ_IO_UNITS_ANGULAR"
    and "INPUT_UNITS P \<noteq> PJ_IO_UNITS_ANGULAR"
    and "proj_trans (vgridshift P) PJ_INV (from_central_meridian E P coo) s = (c2, s2)"
    and "v0 c2 \<noteq> HUGE_VAL"
    and "horizontal_shift P c2 s2 = (c3, s3)"
  shows "pj_inv_finalize E P coo s =
           (if v0 c3 = HUGE_VAL then (c3, s3)
            else if geoc P then (proj_geocentric_latitude E PJ_FWD c3, s3) else (c3, s3))"
  using assms
  by (cases "vgridshift P") (simp_all add: pj_inv_finalize_def proj_trans_def Let_def)

text \<open>
  Claim C5.  In Prepare (angular input units), when the horizontal datum shift returns
  a coordinate \<open>c4\<close> with a sentinel longitude, Prepare returns \<open>c4\<close> and the state of the
  shift as they are: the vertical grid shift is not applied.  In Finalize (angular
  output units, other input units), when the horizontal datum shift returns a
  coordinate \<open>c3\<close> with a sentinel longitude, Finalize returns \<open>c3\<close> and the state of the
  shift as they are: the conversion to geocentric latitude is not applied.
\<close>

theorem horizontal_sentinel_returns_at_once:
  "(v0 coo \<noteq> HUGE_VAL
      \<and> INPUT_UNITS P = PJ_IO_UNITS_ANGULAR
      \<and> proj_trans (axisswap P) PJ_INV (helmert_fill P coo) s = (c, s1)
      \<and> \<not> lat_or_lon_exceeds E c
      \<and> horizontal_shift P
           (to_central_meridian E P
              (if geoc P then proj_geocentric_latitude E PJ_INV (clamp_lat E c)
               else clamp_lat E c)) s1 = (c4, s4)
      \<and> v0 c4 = HUGE_VAL
      \<longrightarrow> pj_inv_prepare E P coo s = (c4, s4))
   \<and> (v0 coo' \<noteq> HUGE_VAL
      \<and> OUTPUT_UNITS P' = PJ_IO_UNITS_ANGULAR
      \<and> INPUT_UNITS P' \<noteq> PJ_IO_UNITS_ANGULAR
      \<and> proj_trans (vgridshift P') PJ_INV (from_central_meridian E P' coo') s' = (c2, s2)
      \<and> v0 c2 \<noteq> HUGE_VAL
      \<and> horizontal_shift P' c2 s2 = (c3, s3)
      \<and> v0 c3 = HUGE_VAL
      \<longrightarrow> pj_inv_finalize E P' coo' s' = (c3, s3))"
proof (intro conjI impI)
  assume a: "v0 coo \<noteq> HUGE_VAL
      \<and> INPUT_UNITS P = PJ_IO_UNITS_ANGULAR
      \<and> proj_trans (axisswap P) PJ_INV (helmert_fill P coo) s = (c, s1)
      \<and> \<not> lat_or_lon_exceeds E c
      \<and> horizontal_shift P
           (to_central_meridian E P
              (if geoc P then proj_geocentric_latitude E PJ_INV (clamp_lat E c)
               else clamp_lat E c)) s1 = (c4, s4)
      \<and> v0 c4 = HUGE_VAL"
  then have "pj_inv_prepare E P coo s = pj_inv_prepare_angular E P c s1"
    by (simp add: pj_inv_prepare_path)
  also have "\<dots> = pj_inv_prepare_shifts P
           (to_central_meridian E P
              (if geoc P then proj_geocentric_latitude E PJ_INV (clamp_lat E c)
               else clamp_lat E c)) s1"
    using a by (simp add: pj_inv_prepare_angular_def Let_def)
  also have "\<dots> = (c4, s4)"
    using a by (intro pj_inv_prepare_shifts_sentinel) auto
  finally show "pj_inv_prepare E P coo s = (c4, s4)" .
next
  assume "v0 coo' \<noteq> HUGE_VAL
      \<and> OUTPUT_UNITS P' = PJ_IO_UNITS_ANGULAR
      \<and> INPUT_UNITS P' \<noteq> PJ_IO_UNITS_ANGULAR
      \<and> proj_trans (vgridshift P') PJ_INV (from_central_meridian E P' coo') s' = (c2, s2)
      \<and> v0 c2 \<noteq> HUGE_VAL
      \<and> horizontal_shift P' c2 s2 = (c3, s3)
      \<and> v0 c3 = HUGE_VAL"
  then show "pj_inv_finalize E P' coo' s' = (c3, s3)"
    using pj_inv_finalize_path [of coo' P' E s' c2 s2 c3 s3] by simp
qed

text \<open>
  A horizontal grid shift that fails, before a vertical grid shift and a geocentric
  conversion that would each change the coordinate.
\<close>

theorem horizontal_sentinel_returns_at_once_witness:
  "pj_inv_prepare env_example
     (PJ_example\<lparr>right := PJ_IO_UNITS_ANGULAR, hgridshift := Some sub_failing,
        vgridshift := Some sub_zero\<rparr>)
     \<lparr>v0 = Finite 0, v1 = Finite 1, v2 = Finite 0, v3 = Finite 0\<rparr> No_errno
     = (proj_coord_error, Other_errno (- 48))
   \<and> pj_inv_finalize (env_example\<lparr>proj_geocentric_latitude := (\<lambda>d coo. coo\<lparr>v1 := Finite 0\<rparr>)\<rparr>)
     (PJ_example\<lparr>left := PJ_IO_UNITS_ANGULAR, hgridshift := Some sub_failing, geoc := True\<rparr>)
     \<lparr>v0 = Finite 0, v1 = Finite 1, v2 = Finite 0, v3 = Finite 0\<rparr> No_errno
     = (proj_coord_error, Other_errno (- 48))"
  using horizontal_sentinel_returns_at_once [of
     "\<lparr>v0 = Finite 0, v1 = Finite 1, v2 = Finite 0, v3 = Finite 0\<rparr>"
     "PJ_example\<lparr>right := PJ_IO_UNITS_ANGULAR, hgridshift := Some sub_failing,
        vgridshift := Some sub_zero\<rparr>"
     No_errno
     "\<lparr>v0 = Finite 0, v1 = Finite 1, v2 = Finite 0, v3 = Finite 0\<rparr>" No_errno
     env_example proj_coord_error "Other_errno (- 48)"
     "\<lparr>v0 = Finite 0, v1 = Finite 1, v2 = Finite 0, v3 = Finite 0\<rparr>"
     "PJ_example\<lparr>left := PJ_IO_UNITS_ANGULAR, hgridshift := Some sub_failing, geoc := True\<rparr>"
     No_errno
     "\<lparr>v0 = Finite 0, v1 = Finite 1, v2 = Finite 0, v3 = Finite 0\<rparr>" No_errno
     proj_coord_error "Other_errno (- 48)"]
  by (simp add: example_defs angular_defs from_central_meridian_def sub_failing_def
      sub_zero_def)

subsection \<open>The order of the steps of Finalize\<close>

text \<open>
  Claim C6.  For angular output units and other input units, Finalize, after its
  opening sentinel check, runs the steps of the specification in their order: add
  \<open>from_greenwich + lam0\<close>, normalize the longitude unless over-range is allowed, the
  vertical grid shift in its inverse sense if configured, the sentinel check, the
  horizontal grid shift forward or else the Helmert chain (local cartesian forward,
  Helmert forward, WGS84 cartesian inverse), the sentinel check, the conversion to
  geocentric latitude if it is in use.
\<close>

theorem finalize_step_order:
  assumes "OUTPUT_UNITS P = PJ_IO_UNITS_ANGULAR"
    and "INPUT_UNITS P \<noteq> PJ_IO_UNITS_ANGULAR"
  shows "pj_inv_finalize E P coo s =
           (if v0 coo = HUGE_VAL then (proj_coord_error, PJD_ERR_INVALID_X_OR_Y)
            else run_steps E P (finalize_steps P) coo s)"
  using assms
  by (simp add: pj_inv_finalize_def finalize_steps_def from_central_meridian_def
      horizontal_shift_def proj_errno_set_def Let_def split: prod.splits)

text \<open>A descriptor with a vertical grid shift and a Helmert chain.\<close>

theorem finalize_step_order_witness:
  "finalize_steps (PJ_example\<lparr>left := PJ_IO_UNITS_ANGULAR, lam0 := Finite 1,
       vgridshift := Some sub_identity, helmert := Some sub_identity\<rparr>)
     = [Add_central_meridian, Normalize_longitude, Vertical_shift_inverse, Check_sentinel,
        Cartesian_local_forward, Helmert_forward, Cartesian_wgs84_inverse, Check_sentinel]
   \<and> pj_inv_finalize env_example
       (PJ_example\<lparr>left := PJ_IO_UNITS_ANGULAR, lam0 := Finite 1,
          vgridshift := Some sub_identity, helmert := Some sub_identity\<rparr>)
       \<lparr>v0 = Finite (- 1), v1 = Finite 1, v2 = Finite 0, v3 = Finite 0\<rparr> No_errno
     = (\<lparr>v0 = Finite 0, v1 = Finite 1, v2 = Finite 0, v3 = Finite 0\<rparr>, No_errno)"
  using finalize_step_order [of
     "PJ_example\<lparr>left := PJ_IO_UNITS_ANGULAR, lam0 := Finite 1,
          vgridshift := Some sub_identity, helmert := Some sub_identity\<rparr>"
     env_example
     "\<lparr>v0 = Finite (- 1), v1 = Finite 1, v2 = Finite 0, v3 = Finite 0\<rparr>" No_errno]
  by (simp add: finalize_steps_def PJ_example_def env_example_def HUGE_VAL_def proj_trans_def
      sub_identity_def)

subsection \<open>Zero for a missing height and time\<close>

text \<open>
  Claim C7.  Past its opening sentinel check, Prepare replaces a sentinel third
  component and a sentinel fourth component by zero if and only if the descriptor has
  a Helmert sub-operation, and it is the coordinate so filled that the axis swap
  receives, and after it the unit handling with the datum chain.
\<close>

theorem helmert_fill_before_suboperations:
  "pj_inv_prepare E P coo s =
     (if v0 coo = HUGE_VAL then (proj_coord_error, PJD_ERR_INVALID_X_OR_Y)
      else
        (let filled = coo\<lparr>v2 := (if v2 coo = HUGE_VAL \<and> helmert P \<noteq> None then Finite 0
                                  else v2 coo),
                           v3 := (if v3 coo = HUGE_VAL \<and> helmert P \<noteq> None then Finite 0
                                  else v3 coo)\<rparr>;
             (c, s1) = proj_trans (axisswap P) PJ_INV filled s
         in if INPUT_UNITS P = PJ_IO_UNITS_ANGULAR then pj_inv_prepare_angular E P c s1
            else pj_inv_prepare_linear P c s1))"
proof (cases "v0 coo = HUGE_VAL")
  case True
  then show ?thesis
    by (simp add: pj_inv_prepare_sentinel)
next
  case False
  have hf: "helmert_fill P coo =
          coo\<lparr>v2 := (if v2 coo = HUGE_VAL \<and> helmert P \<noteq> None then Finite 0 else v2 coo),
               v3 := (if v3 coo = HUGE_VAL \<and> helmert P \<noteq> None then Finite 0 else v3 coo)\<rparr>"
    by (cases "helmert P") (simp_all add: helmert_fill_def Let_def)
  obtain c s1 where ax: "proj_trans (axisswap P) PJ_INV (helmert_fill P coo) s = (c, s1)"
    by (cases "proj_trans (axisswap P) PJ_INV (helmert_fill P coo) s")
  have "pj_inv_prepare E P coo s =
          (if INPUT_UNITS P = PJ_IO_UNITS_ANGULAR then pj_inv_prepare_angular E P c s1
           else pj_inv_prepare_linear P c s1)"
    using False ax by (rule pj_inv_prepare_path)
  then show ?thesis
    using False ax unfolding hf by (simp add: Let_def)
qed

text \<open>
  A coordinate with sentinel height and time: filled with zeros on a descriptor with a
  Helmert sub-operation, left as it is on a descriptor without one.
\<close>

theorem helmert_fill_before_suboperations_witness:
  "pj_inv_prepare env_example (PJ_example\<lparr>helmert := Some sub_identity\<rparr>)
     \<lparr>v0 = Finite 1, v1 = Finite 2, v2 = HUGE_VAL, v3 = HUGE_VAL\<rparr> No_errno
     = (\<lparr>v0 = Finite 1, v1 = Finite 2, v2 = Finite 0, v3 = Finite 0\<rparr>, No_errno)
   \<and> pj_inv_prepare env_example PJ_example
     \<lparr>v0 = Finite 1, v1 = Finite 2, v2 = HUGE_VAL, v3 = HUGE_VAL\<rparr> No_errno
     = (\<lparr>v0 = Finite 1, v1 = Finite 2, v2 = HUGE_VAL, v3 = HUGE_VAL\<rparr>, No_errno)"
  using helmert_fill_before_suboperations [of
     env_example "PJ_example\<lparr>helmert := Some sub_identity\<rparr>"
     "\<lparr>v0 = Finite 1, v1 = Finite 2, v2 = HUGE_VAL, v3 = HUGE_VAL\<rparr>" No_errno]
    helmert_fill_before_suboperations [of
     env_example PJ_example
     "\<lparr>v0 = Finite 1, v1 = Finite 2, v2 = HUGE_VAL, v3 = HUGE_VAL\<rparr>" No_errno]
  by (simp add: PJ_example_def HUGE_VAL_def proj_trans_def pj_inv_prepare_linear_def)

subsection \<open>De-scaling and de-offsetting\<close>

text \<open>
  Claim C8.  With \<open>c\<close> the coordinate after the axis swap: for classic input units
  Prepare returns \<open>x = (to_meter * x - x0) * ra\<close>, \<open>y = (to_meter * y - y0) * ra\<close> and
  \<open>z = vto_meter * z - z0\<close>, a multiplication by \<open>ra\<close>; for projected input units it
  returns the same without the factor \<open>ra\<close>.
\<close>

theorem classic_scaling_multiplies:
  assumes "v0 coo \<noteq> HUGE_VAL"
    and "proj_trans (axisswap P) PJ_INV (helmert_fill P coo) s = (c, s1)"
  shows "(INPUT_UNITS P = PJ_IO_UNITS_CLASSIC \<longrightarrow>
            pj_inv_prepare E P coo s =
              (c\<lparr>v0 := d_mul (d_sub (d_mul (to_meter P) (v0 c)) (x0 P)) (ra P),
                 v1 := d_mul (d_sub (d_mul (to_meter P) (v1 c)) (y0 P)) (ra P),
                 v2 := d_sub (d_mul (vto_meter P) (v2 c)) (z0 P)\<rparr>, s1))
       \<and> (INPUT_UNITS P = PJ_IO_UNITS_PROJECTED \<longrightarrow>
            pj_inv_prepare E P coo s =
              (c\<lparr>v0 := d_sub (d_mul (to_meter P) (v0 c)) (x0 P),
                 v1 := d_sub (d_mul (to_meter P) (v1 c)) (y0 P),
                 v2 := d_sub (d_mul (vto_meter P) (v2 c)) (z0 P)\<rparr>, s1))"
  using assms
  by (simp add: pj_inv_prepare_path pj_inv_prepare_linear_def Let_def)

text \<open>The scale 2, the offset 1 and the factor one half, for both units.\<close>

theorem classic_scaling_multiplies_witness:
  "pj_inv_prepare env_example
     (PJ_example\<lparr>right := PJ_IO_UNITS_CLASSIC, to_meter := Finite 2, x0 := Finite 1,
        ra := Finite (1 / 2)\<rparr>)
     \<lparr>v0 = Finite 3, v1 = Finite 4, v2 = Finite 5, v3 = Finite 6\<rparr> No_errno
     = (\<lparr>v0 = Finite (5 / 2), v1 = Finite 4, v2 = Finite 5, v3 = Finite 6\<rparr>, No_errno)
   \<and> pj_inv_prepare env_example
     (PJ_example\<lparr>right := PJ_IO_UNITS_PROJECTED, to_meter := Finite 2, x0 := Finite 1,
        ra := Finite (1 / 2)\<rparr>)
     \<lparr>v0 = Finite 3, v1 = Finite 4, v2 = Finite 5, v3 = Finite 6\<rparr> No_errno
     = (\<lparr>v0 = Finite 5, v1 = Finite 8, v2 = Finite 5, v3 = Finite 6\<rparr>, No_errno)"
  using classic_scaling_multiplies [of
     "\<lparr>v0 = Finite 3, v1 = Finite 4, v2 = Finite 5, v3 = Finite 6\<rparr>"
     "PJ_example\<lparr>right := PJ_IO_UNITS_CLASSIC, to_meter := Finite 2, x0 := Finite 1,
        ra := Finite (1 / 2)\<rparr>" No_errno
     "\<lparr>v0 = Finite 3, v1 = Finite 4, v2 = Finite 5, v3 = Finite 6\<rparr>" No_errno env_example]
    classic_scaling_multiplies [of
     "\<lparr>v0 = Finite 3, v1 = Finite 4, v2 = Finite 5, v3 = Finite 6\<rparr>"
     "PJ_example\<lparr>right := PJ_IO_UNITS_PROJECTED, to_meter := Finite 2, x0 := Finite 1,
        ra := Finite (1 / 2)\<rparr>" No_errno
     "\<lparr>v0 = Finite 3, v1 = Finite 4, v2 = Finite 5, v3 = Finite 6\<rparr>" No_errno env_example]
  by (simp add: PJ_example_def HUGE_VAL_def proj_trans_def helmert_fill_def d_eq_def d_sub_def)

subsection \<open>A sentinel in the second component\<close>







end
